theory Spec2Isabelle
  imports Complex_Main "HOL-Library.Sublist"
begin

text \<open>
  QMGrid is a data table over rows held in memory (local mode) or fetched page by page
  from a server (remote mode). This theory embeds the part of the class that keeps the
  view state in step with the data: the local filter, the paging and sorting operations,
  the selection, the event bus, and \<^verbatim>\<open>loadServerData\<close> with its request counter, its
  abort of the request in flight, its retries and its check of the echoed token. The
  asynchronous parts are a step function over the grid and its environment.
\<close>

section \<open>JavaScript values\<close>

text \<open>
  Rows, response bodies and arguments of the public methods are JavaScript values.
  Numbers inside rows and response bodies are integers (their decimal rendering is
  what the search compares); objects are association lists of own properties.
\<close>

datatype jsval =
    JUndefined
  | JNull
  | JBool bool
  | JNum int
  | JStr string
  | JArr "jsval list"
  | JObj "(string \<times> jsval) list"

text \<open>Truthiness, as used by \<^verbatim>\<open>!x\<close>, \<^verbatim>\<open>x && y\<close> and \<^verbatim>\<open>x || y\<close>.\<close>

fun truthy :: "jsval \<Rightarrow> bool" where
  "truthy JUndefined = False"
| "truthy JNull = False"
| "truthy (JBool b) = b"
| "truthy (JNum n) = (n \<noteq> 0)"
| "truthy (JStr s) = (s \<noteq> [])"
| "truthy (JArr xs) = True"
| "truthy (JObj kvs) = True"

text \<open>\<^verbatim>\<open>typeof x === 'object'\<close> for a truthy value, and \<^verbatim>\<open>Array.isArray\<close>.\<close>

fun is_object :: "jsval \<Rightarrow> bool" where
  "is_object (JArr xs) = True"
| "is_object (JObj kvs) = True"
| "is_object JNull = True"
| "is_object v = False"

fun isArray :: "jsval \<Rightarrow> bool" where
  "isArray (JArr xs) = True"
| "isArray v = False"

subsection \<open>Strings\<close>

definition digit_char :: "nat \<Rightarrow> char" where
  "digit_char d = ''0123456789'' ! d"

fun nat_to_string :: "nat \<Rightarrow> string" where
  "nat_to_string n =
     (if n < 10 then [digit_char n]
      else nat_to_string (n div 10) @ [digit_char (n mod 10)])"

declare nat_to_string.simps [simp del]

definition int_to_string :: "int \<Rightarrow> string" where
  "int_to_string i = (if i < 0 then ''-'' @ nat_to_string (nat (- i)) else nat_to_string (nat i))"

fun join_comma :: "string list \<Rightarrow> string" where
  "join_comma [] = []"
| "join_comma [s] = s"
| "join_comma (s # t # ts) = s @ '','' @ join_comma (t # ts)"

text \<open>
  \<^verbatim>\<open>String(v)\<close>. On a truthy value it is also what \<^verbatim>\<open>v.toString()\<close> returns;
  the code calls \<^verbatim>\<open>toString\<close> on truthy values only.
\<close>

fun js_String :: "jsval \<Rightarrow> string" where
  "js_String JUndefined = ''undefined''"
| "js_String JNull = ''null''"
| "js_String (JBool b) = (if b then ''true'' else ''false'')"
| "js_String (JNum n) = int_to_string n"
| "js_String (JStr s) = s"
| "js_String (JArr xs) =
     join_comma (map (\<lambda>x. if x = JNull \<or> x = JUndefined then [] else js_String x) xs)"
| "js_String (JObj kvs) = ''[object Object]''"

text \<open>\<^verbatim>\<open>toLowerCase\<close> on the ASCII letters.\<close>

definition lower_char :: "char \<Rightarrow> char" where
  "lower_char c =
     (case map_of (zip ''ABCDEFGHIJKLMNOPQRSTUVWXYZ'' ''abcdefghijklmnopqrstuvwxyz'') c of
        Some l \<Rightarrow> l
      | None \<Rightarrow> c)"

definition toLowerCase :: "string \<Rightarrow> string" where
  "toLowerCase s = map lower_char s"

text \<open>\<^verbatim>\<open>s.includes(t)\<close>: some suffix of \<open>s\<close> starts with \<open>t\<close>.\<close>

fun str_includes :: "string \<Rightarrow> string \<Rightarrow> bool" where
  "str_includes [] t = (t = [])"
| "str_includes (c # cs) t = (prefix t (c # cs) \<or> str_includes cs t)"

text \<open>\<^verbatim>\<open>s.split('.')\<close>.\<close>

fun split_dot :: "string \<Rightarrow> string list" where
  "split_dot [] = [[]]"
| "split_dot (c # cs) =
     (if c = CHR ''.'' then [] # split_dot cs
      else (case split_dot cs of
              w # ws \<Rightarrow> (c # w) # ws
            | [] \<Rightarrow> [[c]]))"

subsection \<open>Property access\<close>

text \<open>
  \<^verbatim>\<open>obj[prop]\<close> on a value that is neither null nor undefined: own properties of an
  object, \<^verbatim>\<open>length\<close> and the indices of an array or a string. Inherited members of
  the prototypes are left out. The code guards every access with a truthiness test of
  the receiver, so the last equation is never reached for null or undefined.
\<close>

fun get_prop :: "jsval \<Rightarrow> string \<Rightarrow> jsval" where
  "get_prop (JObj kvs) p = (case map_of kvs p of Some v \<Rightarrow> v | None \<Rightarrow> JUndefined)"
| "get_prop (JArr xs) p =
     (if p = ''length'' then JNum (int (length xs))
      else (case filter (\<lambda>i. nat_to_string i = p) [0..<length xs] of
              i # _ \<Rightarrow> xs ! i
            | [] \<Rightarrow> JUndefined))"
| "get_prop (JStr s) p =
     (if p = ''length'' then JNum (int (length s))
      else (case filter (\<lambda>i. nat_to_string i = p) [0..<length s] of
              i # _ \<Rightarrow> JStr [s ! i]
            | [] \<Rightarrow> JUndefined))"
| "get_prop v p = JUndefined"

section \<open>Numbers of the paging state\<close>

text \<open>
  Page number and page size are JavaScript numbers supplied by the caller: they need
  not be integers and may be \<^verbatim>\<open>NaN\<close>. They are modelled as exact reals with
  \<^verbatim>\<open>NaN\<close> and the two infinities; rounding and the sign of zero are left out.
\<close>

datatype jsnum = Num real | NaN | PosInf | NegInf

fun js_lt :: "jsnum \<Rightarrow> jsnum \<Rightarrow> bool" where
  "js_lt (Num a) (Num b) = (a < b)"
| "js_lt NaN y = False"
| "js_lt x NaN = False"
| "js_lt NegInf NegInf = False"
| "js_lt NegInf y = True"
| "js_lt x NegInf = False"
| "js_lt PosInf y = False"
| "js_lt x PosInf = True"

fun js_le :: "jsnum \<Rightarrow> jsnum \<Rightarrow> bool" where
  "js_le NaN y = False"
| "js_le x NaN = False"
| "js_le x y = (x = y \<or> js_lt x y)"

definition js_ge :: "jsnum \<Rightarrow> jsnum \<Rightarrow> bool" where
  "js_ge x y = js_le y x"

fun js_div :: "jsnum \<Rightarrow> jsnum \<Rightarrow> jsnum" where
  "js_div (Num a) (Num b) =
     (if b \<noteq> 0 then Num (a / b) else if a = 0 then NaN else if 0 < a then PosInf else NegInf)"
| "js_div NaN y = NaN"
| "js_div x NaN = NaN"
| "js_div (Num a) y = Num 0"
| "js_div PosInf (Num b) = (if 0 \<le> b then PosInf else NegInf)"
| "js_div NegInf (Num b) = (if 0 \<le> b then NegInf else PosInf)"
| "js_div PosInf y = NaN"
| "js_div NegInf y = NaN"

fun js_ceil :: "jsnum \<Rightarrow> jsnum" where
  "js_ceil (Num a) = Num (of_int \<lceil>a\<rceil>)"
| "js_ceil x = x"

text \<open>The argument of \<^verbatim>\<open>setPageSize\<close>: a number, or a value of any other type.\<close>

datatype jsarg = ANum jsnum | AOther jsval

section \<open>The grid\<close>

datatype sort_dir = Asc | Desc

record column =
  key :: string

text \<open>The parameters of a request (\<^verbatim>\<open>params\<close> in \<^verbatim>\<open>loadServerData\<close>).\<close>

record params =
  req_page :: jsnum
  req_pageSize :: jsnum
  req_search :: string
  req_sortBy :: "string option"
  req_sortDir :: sort_dir
  req_draw :: nat

text \<open>The options of the constructor that the operations below read.\<close>

record config =
  data :: "jsval list"
  columns :: "column list"
  pageSize :: jsnum
  multiSelect :: bool
  serverSide :: bool
  ajax_url :: jsval
  ajax_retryAttempts :: nat
  ajax_retryDelay :: nat
  ajax_beforeSend :: "(params \<Rightarrow> jsval) option"
  resp_data :: string
  resp_totalRecords :: string
  resp_error :: string
  resp_draw :: string

text \<open>What the awaited \<^verbatim>\<open>fetch\<close> and \<^verbatim>\<open>response.json()\<close> of one request yield.\<close>

datatype outcome =
    Fetch_rejects
  | Fetch_aborted
  | Http_not_ok nat
  | Fetch_json jsval

datatype js_error =
    AbortError
  | FetchError
  | HttpError nat
  | ResponseError string
  | NotArrayError

text \<open>The page, search term and sort order that the server events carry.\<close>

type_synonym view_info = "jsnum \<times> string \<times> string option \<times> sort_dir"

datatype ev =
    Ev_search string
  | Ev_sort string sort_dir
  | Ev_pageChange jsnum
  | Ev_pageSizeChange jsnum
  | Ev_rowRemove jsval int
  | Ev_serverRequestStart view_info
  | Ev_serverRequestEnd view_info
  | Ev_serverError js_error view_info
  | Ev_serverDataLoaded "jsval list" int view_info

datatype console_msg =
    Err_no_url
  | Warn_stale_draw
  | Log_cancelled
  | Err_load_failed js_error
  | Log_retrying nat nat
  | Warn_sort_column
  | Warn_column_missing string
  | Warn_sort_direction
  | Warn_page_size
  | Warn_invalid_index int
  | Warn_remove_serverSide

datatype timer_action = Debounced_search | Retry_load

text \<open>
  The fields of a \<^verbatim>\<open>QMGrid\<close> instance, followed by the part of its environment that
  the instance acts on: the clock and the timers of \<^verbatim>\<open>setTimeout\<close>, the text of the
  search box, the requests suspended at \<^verbatim>\<open>await fetch\<close> (by request identifier, which
  also names the request's \<^verbatim>\<open>AbortController\<close>), the controllers on which
  \<^verbatim>\<open>abort\<close> was called, the requests handed to \<^verbatim>\<open>fetch\<close>, the events passed to
  \<^verbatim>\<open>emit\<close>, the console, and the runtime's \<^verbatim>\<open>Array.prototype.sort\<close> with the
  comparator that \<^verbatim>\<open>sort\<close> builds from a column and a direction.
  Rendering only reads the state and is left out. The hook \<^verbatim>\<open>ajax.data\<close> only shapes
  the payload handed to \<^verbatim>\<open>fetch\<close>, and \<^verbatim>\<open>ajax.complete\<close> and \<^verbatim>\<open>ajax.error\<close> are
  called for their own effects; they are left out, and every hook is taken to return
  normally. The timer that aborts a request after \<^verbatim>\<open>ajax.timeout\<close> is covered by the
  outcome \<^const>\<open>Fetch_aborted\<close>, which the environment may deliver at any time.
\<close>

record grid =
  config :: config
  currentPage :: jsnum
  sortColumn :: "string option"
  sortDirection :: sort_dir
  searchTerm :: string
  selectedRows :: "int list"
  filteredData :: "jsval list"
  originalData :: "jsval list"
  searchTimeout :: "nat option"
  totalRecords :: int
  isLoading :: bool
  currentRequest :: "nat option"
  requestId :: nat
  retryCount :: nat
  clock :: nat
  timers :: "(nat \<times> nat \<times> timer_action) list"
  nextTimer :: nat
  inputValue :: string
  pending :: "nat list"
  aborted :: "nat list"
  sent :: "params list"
  emitted :: "ev list"
  console :: "console_msg list"
  array_sort :: "string \<Rightarrow> sort_dir \<Rightarrow> jsval list \<Rightarrow> jsval list"

definition SEARCH_DEBOUNCE_DELAY :: nat where
  "SEARCH_DEBOUNCE_DELAY = 300"

definition emit :: "ev \<Rightarrow> grid \<Rightarrow> grid" where
  "emit e g = g\<lparr>emitted := emitted g @ [e]\<rparr>"

definition log_console :: "console_msg \<Rightarrow> grid \<Rightarrow> grid" where
  "log_console m g = g\<lparr>console := console g @ [m]\<rparr>"

definition view_of :: "grid \<Rightarrow> view_info" where
  "view_of g = (currentPage g, searchTerm g, sortColumn g, sortDirection g)"

definition setTimeout :: "timer_action \<Rightarrow> nat \<Rightarrow> grid \<Rightarrow> grid" where
  "setTimeout a delay g =
     g\<lparr>timers := timers g @ [(nextTimer g, clock g + delay, a)], nextTimer := Suc (nextTimer g)\<rparr>"

definition clearTimeout :: "nat option \<Rightarrow> grid \<Rightarrow> grid" where
  "clearTimeout t g = g\<lparr>timers := filter (\<lambda>(i, due, a). Some i \<noteq> t) (timers g)\<rparr>"

subsection \<open>Cell values and the local filter\<close>

definition getCellValue :: "jsval \<Rightarrow> string \<Rightarrow> jsval" where
  "getCellValue row k =
     (if \<not> truthy row \<or> \<not> is_object row then JStr []
      else if k = [] then JStr []
      else if CHR ''.'' \<in> set k then
        foldl (\<lambda>obj prop. if truthy obj \<and> get_prop obj prop \<noteq> JUndefined
                            then get_prop obj prop else JStr [])
              row (split_dot k)
      else if get_prop row k \<noteq> JUndefined \<and> get_prop row k \<noteq> JNull then get_prop row k
      else JStr [])"

definition applyFilters :: "grid \<Rightarrow> grid" where
  "applyFilters g =
     g\<lparr>filteredData :=
         filter (\<lambda>row.
                   if searchTerm g = [] then True
                   else list_ex (\<lambda>col.
                          let v = getCellValue row (key col)
                          in truthy v \<and> str_includes (toLowerCase (js_String v)) (searchTerm g))
                        (columns (config g)))
                (originalData g)\<rparr>"

subsection \<open>Requests\<close>

definition getNestedValue :: "jsval \<Rightarrow> string \<Rightarrow> jsval" where
  "getNestedValue obj path =
     (if path = [] \<or> \<not> truthy obj then obj
      else foldl (\<lambda>current k. if truthy current \<and> get_prop current k \<noteq> JUndefined
                              then get_prop current k else JNull)
                 obj (split_dot path))"

text \<open>The \<^verbatim>\<open>finally\<close> block of \<^verbatim>\<open>loadServerData\<close>.\<close>

definition finally_block :: "grid \<Rightarrow> grid" where
  "finally_block g =
     (let g1 = g\<lparr>isLoading := False, currentRequest := None\<rparr>
      in emit (Ev_serverRequestEnd (view_of g1)) g1)"

text \<open>The \<^verbatim>\<open>params\<close> object, built once the request counter has been advanced.\<close>

definition request_params :: "grid \<Rightarrow> params" where
  "request_params g =
     \<lparr>req_page = currentPage g, req_pageSize = pageSize (config g),
      req_search = searchTerm g, req_sortBy = sortColumn g,
      req_sortDir = sortDirection g, req_draw = requestId g\<rparr>"

text \<open>
  \<^verbatim>\<open>loadServerData\<close> up to its first \<^verbatim>\<open>await\<close>: the request is handed to
  \<^verbatim>\<open>fetch\<close> and the call is suspended, or the call returns before that.
\<close>

definition loadServerData :: "grid \<Rightarrow> grid" where
  "loadServerData g =
     (if \<not> truthy (ajax_url (config g)) then log_console Err_no_url g
      else
        let g1 = (case currentRequest g of
                    Some c \<Rightarrow> g\<lparr>aborted := aborted g @ [c]\<rparr>
                  | None \<Rightarrow> g)
        in if isLoading g1 then g1
           else
             let g2 = emit (Ev_serverRequestStart (view_of g1)) (g1\<lparr>isLoading := True\<rparr>);
                 g3 = g2\<lparr>requestId := Suc (requestId g2)\<rparr>;
                 ps = request_params g3
             in if (case ajax_beforeSend (config g3) of
                      Some hook \<Rightarrow> hook ps = JBool False
                    | None \<Rightarrow> False)
                then finally_block (g3\<lparr>isLoading := False\<rparr>)
                else g3\<lparr>currentRequest := Some (requestId g3),
                        sent := sent g3 @ [ps],
                        pending := pending g3 @ [requestId g3]\<rparr>)"

text \<open>
  The rest of the \<^verbatim>\<open>try\<close> block, resumed with the outcome of the request \<open>rid\<close>
  (the local constant \<^verbatim>\<open>requestId\<close> of the suspended call): the error thrown, if any,
  and the state.
\<close>

definition try_block :: "nat \<Rightarrow> outcome \<Rightarrow> grid \<Rightarrow> js_error option \<times> grid" where
  "try_block rid oc g =
     (case oc of
        Fetch_aborted \<Rightarrow> (Some AbortError, g)
      | Fetch_rejects \<Rightarrow> (Some FetchError, g)
      | Http_not_ok st \<Rightarrow> (Some (HttpError st), g)
      | Fetch_json result \<Rightarrow>
          let responseDraw = getNestedValue result (resp_draw (config g))
          in if truthy responseDraw \<and> responseDraw \<noteq> JNum (int rid)
             then (None, log_console Warn_stale_draw g)
             else
               let dat = getNestedValue result (resp_data (config g));
                   total = getNestedValue result (resp_totalRecords (config g));
                   err = getNestedValue result (resp_error (config g))
               in if truthy err then (Some (ResponseError (js_String err)), g)
                  else (case dat of
                          JArr rows \<Rightarrow>
                            let g1 = g\<lparr>originalData := rows, filteredData := rows,
                                       totalRecords := (case total of
                                                          JNum n \<Rightarrow> n
                                                        | _ \<Rightarrow> int (length rows)),
                                       retryCount := 0\<rparr>
                            in (None, emit (Ev_serverDataLoaded rows (totalRecords g1) (view_of g1)) g1)
                        | _ \<Rightarrow> (Some NotArrayError, g)))"

definition catch_block :: "js_error \<Rightarrow> grid \<Rightarrow> grid" where
  "catch_block err g =
     (if err = AbortError then log_console Log_cancelled g
      else
        let g1 = log_console (Err_load_failed err) g
        in if retryCount g1 < ajax_retryAttempts (config g1) then
             let g2 = g1\<lparr>retryCount := Suc (retryCount g1)\<rparr>;
                 g3 = log_console (Log_retrying (retryCount g2) (ajax_retryAttempts (config g2))) g2
             in setTimeout Retry_load (ajax_retryDelay (config g3) * retryCount g3) g3
           else emit (Ev_serverError err (view_of g1)) g1)"

text \<open>
  The suspended call of request \<open>rid\<close> resumes. A request whose controller was aborted
  rejects with an \<^verbatim>\<open>AbortError\<close>, whatever the server answered.
\<close>

definition resume :: "nat \<Rightarrow> outcome \<Rightarrow> grid \<Rightarrow> grid" where
  "resume rid oc g =
     (let oc' = (if rid \<in> set (aborted g) then Fetch_aborted else oc);
          g0 = g\<lparr>pending := removeAll rid (pending g)\<rparr>
      in case try_block rid oc' g0 of
           (None, g1) \<Rightarrow> finally_block g1
         | (Some err, g1) \<Rightarrow> finally_block (catch_block err g1))"

subsection \<open>Public operations\<close>

definition search :: "jsval \<Rightarrow> grid \<Rightarrow> grid" where
  "search term g =
     (let t = (case term of
                 JStr s \<Rightarrow> s
               | _ \<Rightarrow> js_String (if truthy term then term else JStr []));
          g1 = g\<lparr>searchTerm := toLowerCase t\<rparr>;
          g2 = (if serverSide (config g1) then loadServerData (g1\<lparr>currentPage := Num 1\<rparr>)
                else (applyFilters g1)\<lparr>currentPage := Num 1\<rparr>)
      in emit (Ev_search t) g2)"

definition sort_grid :: "jsval \<Rightarrow> jsval \<Rightarrow> grid \<Rightarrow> grid" where
  "sort_grid column direction0 g =
     (case column of
        JStr c \<Rightarrow>
          if c = [] then log_console Warn_sort_column g
          else if \<not> list_ex (\<lambda>col. key col = c) (columns (config g))
          then log_console (Warn_column_missing c) g
          else
            let direction1 = (if direction0 = JUndefined then JNull else direction0);
                bad = (truthy direction1 \<and> direction1 \<noteq> JStr ''asc'' \<and> direction1 \<noteq> JStr ''desc'');
                g1 = (if bad then log_console Warn_sort_direction g else g);
                direction = (if bad then JNull else direction1);
                g2 = (if sortColumn g1 = Some c \<and> direction = JNull
                      then g1\<lparr>sortDirection := (if sortDirection g1 = Asc then Desc else Asc)\<rparr>
                      else g1\<lparr>sortColumn := Some c,
                              sortDirection := (if direction = JStr ''desc'' then Desc else Asc)\<rparr>);
                g3 = (if serverSide (config g2) then loadServerData (g2\<lparr>currentPage := Num 1\<rparr>)
                      else g2\<lparr>filteredData := array_sort g2 c (sortDirection g2) (filteredData g2)\<rparr>)
            in emit (Ev_sort c (sortDirection g3)) g3
      | _ \<Rightarrow> log_console Warn_sort_column g)"

definition goToPage :: "jsnum \<Rightarrow> grid \<Rightarrow> grid" where
  "goToPage page g =
     (if serverSide (config g) then
        let totalPages = js_ceil (js_div (Num (of_int (totalRecords g))) (pageSize (config g)))
        in if js_ge page (Num 1) \<and> js_le page totalPages
           then emit (Ev_pageChange page) (loadServerData (g\<lparr>currentPage := page\<rparr>))
           else g
      else
        let totalPages = js_ceil (js_div (Num (of_nat (length (filteredData g)))) (pageSize (config g)))
        in if js_ge page (Num 1) \<and> js_le page totalPages
           then emit (Ev_pageChange page) (g\<lparr>currentPage := page\<rparr>)
           else g)"

definition setPageSize :: "jsarg \<Rightarrow> grid \<Rightarrow> grid" where
  "setPageSize sz g =
     (case sz of
        AOther v \<Rightarrow> log_console Warn_page_size g
      | ANum n \<Rightarrow>
          if js_lt n (Num 1) then log_console Warn_page_size g
          else
            let g1 = g\<lparr>config := (config g)\<lparr>pageSize := n\<rparr>, currentPage := Num 1\<rparr>;
                g2 = (if serverSide (config g1) then loadServerData g1 else g1)
            in emit (Ev_pageSizeChange n) g2)"

definition refresh :: "grid \<Rightarrow> grid" where
  "refresh g = (if serverSide (config g) then loadServerData g else applyFilters g)"






text \<open>
  The handler of the search box (\<^verbatim>\<open>debounce\<close> applied to the call of \<^verbatim>\<open>search\<close>):
  the user has changed the text of the box to \<open>v\<close>. The timer, when it fires, reads the
  text the box has then.
\<close>

definition debouncedSearch :: "string \<Rightarrow> grid \<Rightarrow> grid" where
  "debouncedSearch v g =
     (let g1 = clearTimeout (searchTimeout g) (g\<lparr>inputValue := v\<rparr>);
          t = nextTimer g1
      in (setTimeout Debounced_search SEARCH_DEBOUNCE_DELAY g1)\<lparr>searchTimeout := Some t\<rparr>)"

fun fire_action :: "timer_action \<Rightarrow> grid \<Rightarrow> grid" where
  "fire_action Debounced_search g = search (JStr (inputValue g)) g"
| "fire_action Retry_load g = loadServerData g"

subsection \<open>Construction\<close>

text \<open>
  The fields the constructor sets before it calls \<^verbatim>\<open>init\<close>, and \<^verbatim>\<open>init\<close>: it
  throws when server-side processing is enabled without a URL, and with server-side
  processing it loads the first page.
\<close>

definition new_fields :: "config \<Rightarrow> (string \<Rightarrow> sort_dir \<Rightarrow> jsval list \<Rightarrow> jsval list) \<Rightarrow> grid" where
  "new_fields options srt =
     \<lparr>config = options, currentPage = Num 1, sortColumn = None, sortDirection = Asc,
      searchTerm = [], selectedRows = [], filteredData = [], originalData = [],
      searchTimeout = None, totalRecords = 0, isLoading = False,
      currentRequest = None, requestId = 0, retryCount = 0,
      clock = 0, timers = [], nextTimer = 0, inputValue = [],
      pending = [], aborted = [], sent = [], emitted = [], console = [],
      array_sort = srt\<rparr>"

definition init :: "grid \<Rightarrow> grid option" where
  "init g =
     (if serverSide (config g) then
        if \<not> truthy (ajax_url (config g)) then None
        else Some (loadServerData (g\<lparr>originalData := [], filteredData := [], totalRecords := 0\<rparr>))
      else Some (g\<lparr>originalData := data (config g), filteredData := data (config g)\<rparr>))"

definition QMGrid :: "config \<Rightarrow> (string \<Rightarrow> sort_dir \<Rightarrow> jsval list \<Rightarrow> jsval list) \<Rightarrow> grid option" where
  "QMGrid options srt = init (new_fields options srt)"

subsection \<open>Runs\<close>

text \<open>
  What can happen to a grid: a call of one of the public methods that reach
  \<^verbatim>\<open>loadServerData\<close> (\<^verbatim>\<open>search\<close>, \<^verbatim>\<open>sort\<close>, \<^verbatim>\<open>goToPage\<close>, \<^verbatim>\<open>setPageSize\<close>,
  \<^verbatim>\<open>refresh\<close>), the user typing in the search box, time passing, a timer firing, a
  suspended request resuming. Time does not pass beyond the due time of a pending timer,
  a timer fires once it is due, and only a suspended request resumes; a step that cannot
  happen is \<open>None\<close>.
\<close>

datatype event =
    Call_search jsval
  | Call_sort jsval jsval
  | Call_goToPage jsnum
  | Call_setPageSize jsarg
  | Call_refresh
  | Input string
  | Tick nat
  | Fire nat
  | Respond nat outcome

fun step :: "event \<Rightarrow> grid \<Rightarrow> grid option" where
  "step (Call_search term) g = Some (search term g)"
| "step (Call_sort column direction) g = Some (sort_grid column direction g)"
| "step (Call_goToPage page) g = Some (goToPage page g)"
| "step (Call_setPageSize sz) g = Some (setPageSize sz g)"
| "step Call_refresh g = Some (refresh g)"
| "step (Input v) g = Some (debouncedSearch v g)"
| "step (Tick d) g =
     (if list_all (\<lambda>(i, due, a). clock g + d \<le> due) (timers g)
      then Some (g\<lparr>clock := clock g + d\<rparr>) else None)"
| "step (Fire t) g =
     (case find (\<lambda>(i, due, a). i = t) (timers g) of
        Some (i, due, a) \<Rightarrow>
          if due \<le> clock g then Some (fire_action a (clearTimeout (Some t) g)) else None
      | None \<Rightarrow> None)"
| "step (Respond rid oc) g =
     (if rid \<in> set (pending g) then Some (resume rid oc g) else None)"

fun run :: "event list \<Rightarrow> grid \<Rightarrow> grid option" where
  "run [] g = Some g"
| "run (e # es) g = (case step e g of None \<Rightarrow> None | Some g' \<Rightarrow> run es g')"

subsection \<open>The search filter as the specification words it\<close>

text \<open>
  A row matches a search term when the term is empty or, for some configured column, the
  string projection of the cell contains the lower-cased term; and the same with the two
  conditions the code adds: the cell is truthy, and its projection is lower-cased too.
\<close>

definition claimed_match :: "column list \<Rightarrow> string \<Rightarrow> jsval \<Rightarrow> bool" where
  "claimed_match cols term row \<longleftrightarrow>
     term = [] \<or>
     (\<exists>col \<in> set cols.
        sublist (toLowerCase term) (js_String (getCellValue row (key col))))"

definition lowered_match :: "column list \<Rightarrow> string \<Rightarrow> jsval \<Rightarrow> bool" where
  "lowered_match cols term row \<longleftrightarrow>
     term = [] \<or>
     (\<exists>col \<in> set cols.
        truthy (getCellValue row (key col)) \<and>
        sublist (toLowerCase term) (toLowerCase (js_String (getCellValue row (key col)))))"

section \<open>Subscribers\<close>

text \<open>
  \<^verbatim>\<open>on\<close> appends a callback to the list kept for an event name, and the body of
  \<^verbatim>\<open>emit\<close> runs \<^verbatim>\<open>forEach\<close> over that list. A callback returns or raises; a
  raise leaves \<^verbatim>\<open>forEach\<close> and \<^verbatim>\<open>emit\<close> at once, since neither catches. The
  result lists the callbacks that were called, in order, with the error that escaped.
  The operations of the grid above record the events passed to \<^verbatim>\<open>emit\<close> and take
  the subscribers to return.
\<close>

datatype cb_result = Returns | Raises string

record subscriber =
  cb_id :: nat
  cb_call :: "ev \<Rightarrow> cb_result"

type_synonym event_table = "string \<Rightarrow> subscriber list option"

definition on_event :: "string \<Rightarrow> subscriber \<Rightarrow> event_table \<Rightarrow> event_table" where
  "on_event name cb events =
     events(name \<mapsto> (case events name of None \<Rightarrow> [] | Some cbs \<Rightarrow> cbs) @ [cb])"

fun forEach_callback :: "subscriber list \<Rightarrow> ev \<Rightarrow> nat list \<times> string option" where
  "forEach_callback [] d = ([], None)"
| "forEach_callback (cb # cbs) d =
     (case cb_call cb d of
        Raises e \<Rightarrow> ([cb_id cb], Some e)
      | Returns \<Rightarrow>
          (case forEach_callback cbs d of (called, r) \<Rightarrow> (cb_id cb # called, r)))"

definition emit_forEach :: "event_table \<Rightarrow> string \<Rightarrow> ev \<Rightarrow> nat list \<times> string option" where
  "emit_forEach events name d =
     (case events name of
        None \<Rightarrow> ([], None)
      | Some cbs \<Rightarrow> forEach_callback cbs d)"

text \<open>Two subscribers of \<^verbatim>\<open>search\<close>: the first raises, the second returns.\<close>

definition demo_events :: event_table where
  "demo_events =
     on_event ''search'' \<lparr>cb_id = 2, cb_call = (\<lambda>d. Returns)\<rparr>
       (on_event ''search'' \<lparr>cb_id = 1, cb_call = (\<lambda>d. Raises ''boom'')\<rparr> (\<lambda>name. None))"

section \<open>Example grids\<close>

text \<open>
  A comparison of cell values for \<^verbatim>\<open>Array.prototype.sort\<close> that agrees with
  JavaScript's \<^verbatim>\<open><\<close> where both values are numbers or both are strings, and the
  stable sort by one column that \<^verbatim>\<open>sort\<close> asks the runtime for.
\<close>

fun str_less :: "string \<Rightarrow> string \<Rightarrow> bool" where
  "str_less [] [] = False"
| "str_less [] (d # ds) = True"
| "str_less (c # cs) [] = False"
| "str_less (c # cs) (d # ds) =
     ((of_char c :: nat) < of_char d \<or> (c = d \<and> str_less cs ds))"

fun js_less :: "jsval \<Rightarrow> jsval \<Rightarrow> bool" where
  "js_less (JNum a) (JNum b) = (a < b)"
| "js_less (JStr a) (JStr b) = str_less a b"
| "js_less a b = False"

fun insert_row :: "(jsval \<Rightarrow> jsval \<Rightarrow> bool) \<Rightarrow> jsval \<Rightarrow> jsval list \<Rightarrow> jsval list" where
  "insert_row precedes x [] = [x]"
| "insert_row precedes x (y # ys) =
     (if precedes y x then y # insert_row precedes x ys else x # y # ys)"

definition stable_sort :: "string \<Rightarrow> sort_dir \<Rightarrow> jsval list \<Rightarrow> jsval list" where
  "stable_sort c d rows =
     foldr (insert_row (\<lambda>a b. if d = Desc
                                then js_less (getCellValue b c) (getCellValue a c)
                                else js_less (getCellValue a c) (getCellValue b c)))
           rows []"

definition demo_rows :: "jsval list" where
  "demo_rows = [JObj [(''name'', JStr ''Ama''), (''age'', JNum 30)],
                JObj [(''name'', JStr ''Kofi''), (''age'', JNum 0)],
                JObj [(''name'', JStr ''Esi''), (''age'', JNum 25)]]"

definition demo_options :: config where
  "demo_options =
     \<lparr>data = demo_rows, columns = [\<lparr>key = ''name''\<rparr>, \<lparr>key = ''age''\<rparr>],
      pageSize = Num 2, multiSelect = True, serverSide = False, ajax_url = JNull,
      ajax_retryAttempts = 3, ajax_retryDelay = 1000, ajax_beforeSend = None,
      resp_data = ''data'', resp_totalRecords = ''total'', resp_error = ''error'',
      resp_draw = ''draw''\<rparr>"

text \<open>The local grid over the three rows, as the constructor leaves it.\<close>

definition demo_local :: grid where
  "demo_local =
     (new_fields demo_options stable_sort)\<lparr>originalData := demo_rows, filteredData := demo_rows\<rparr>"


text \<open>
  The local grid sorted by name, descending, with the first and the third displayed row
  selected; and the local grid after a search for \<^verbatim>\<open>k\<close>, with the one displayed
  row selected.
\<close>

definition demo_sorted :: grid where
  "demo_sorted = (sort_grid (JStr ''name'') (JStr ''desc'') demo_local)\<lparr>selectedRows := [0, 2]\<rparr>"


text \<open>
  The remote grid over the same columns, as the constructor leaves it: the request for
  the first page is in flight. Then the body of a first page that echoes the token, the
  same body without the token, the grid once the first page has been loaded, and a grid
  whose pre-send hook vetoes every request.
\<close>

definition demo_remote_options :: config where
  "demo_remote_options =
     demo_options\<lparr>data := [], serverSide := True, ajax_url := JStr ''/api/data''\<rparr>"

definition demo_remote :: grid where
  "demo_remote = loadServerData (new_fields demo_remote_options stable_sort)"

definition demo_page :: jsval where
  "demo_page =
     JObj [(''data'', JArr [JObj [(''name'', JStr ''Ama''), (''age'', JNum 30)],
                            JObj [(''name'', JStr ''Kofi''), (''age'', JNum 0)]]),
           (''total'', JNum 3), (''draw'', JNum 1)]"

definition demo_page_no_draw :: jsval where
  "demo_page_no_draw =
     JObj [(''data'', JArr [JObj [(''name'', JStr ''Ama''), (''age'', JNum 30)],
                            JObj [(''name'', JStr ''Kofi''), (''age'', JNum 0)]]),
           (''total'', JNum 3)]"

definition demo_loaded :: grid where
  "demo_loaded = resume 1 (Fetch_json demo_page) demo_remote"


definition demo_veto :: grid where
  "demo_veto =
     loadServerData
       (new_fields (demo_remote_options\<lparr>ajax_beforeSend := Some (\<lambda>ps. JBool False)\<rparr>) stable_sort)"

text \<open>A body that echoes a token that was never issued.\<close>

definition demo_stale :: jsval where
  "demo_stale = JObj [(''data'', JArr [JObj [(''name'', JStr ''Esi''), (''age'', JNum 25)]]),
                      (''total'', JNum 1), (''draw'', JNum 7)]"

section \<open>Invariant and scenarios of the remote engine\<close>

text \<open>
  At most one request is suspended, and it is the one issued last, while the grid is
  loading.
\<close>

definition latest_only :: "grid \<Rightarrow> bool" where
  "latest_only g \<longleftrightarrow> pending g = [] \<or> (pending g = [requestId g] \<and> isLoading g)"

text \<open>The token a response body echoes, read at the configured path.\<close>

definition echoed_token :: "grid \<Rightarrow> jsval \<Rightarrow> jsval" where
  "echoed_token g result = getNestedValue result (resp_draw (config g))"

text \<open>The rows and the total that a response commits.\<close>

definition committed_view :: "grid \<Rightarrow> jsval list \<times> jsval list \<times> int" where
  "committed_view g = (originalData g, filteredData g, totalRecords g)"




definition never_vetoes :: "grid \<Rightarrow> bool" where
  "never_vetoes g \<longleftrightarrow>
     (case ajax_beforeSend (config g) of
        None \<Rightarrow> True
      | Some hook \<Rightarrow> \<forall>ps. hook ps \<noteq> JBool False)"




text \<open>
  The scenario of typing: before each change of the search box some time passes. The
  box is armed when the only pending timer is the debounce timer that the last change
  started, due one debounce delay after that change. \<open>engine_of\<close> forgets the clock, the
  timers and the box.
\<close>

fun typing :: "(nat \<times> string) list \<Rightarrow> event list" where
  "typing [] = []"
| "typing ((gap, v) # rest) = Tick gap # Input v # typing rest"

definition armed :: "string \<Rightarrow> grid \<Rightarrow> bool" where
  "armed v g \<longleftrightarrow>
     (\<exists>t. timers g = [(t, clock g + SEARCH_DEBOUNCE_DELAY, Debounced_search)]
          \<and> searchTimeout g = Some t) \<and> inputValue g = v"

definition engine_of :: "grid \<Rightarrow> grid" where
  "engine_of g = g\<lparr>clock := 0, timers := [], nextTimer := 0, inputValue := [], searchTimeout := None\<rparr>"

text \<open>
  Two changes of the search box 50 ms apart; four failures in a row, one for the
  request and one for each of the three retries; and the same with a last retry that
  times out.
\<close>

definition demo_burst :: "(nat \<times> string) list" where
  "demo_burst = [(0, ''a''), (50, ''AB'')]"



section \<open>Properties\<close>

lemma QMGrid_demo_local: "QMGrid demo_options stable_sort = Some demo_local"
  by (simp add: QMGrid_def init_def new_fields_def demo_local_def demo_options_def)

subsection \<open>Removing a row (local mode)\<close>





lemma demo_sorted_rows:
  "filteredData demo_sorted = [demo_rows ! 1, demo_rows ! 2, demo_rows ! 0]"
  by (simp add: demo_sorted_def sort_grid_def Let_def emit_def demo_local_def new_fields_def
      demo_options_def demo_rows_def stable_sort_def getCellValue_def)









subsection \<open>The local filter\<close>

lemma str_includes_sublist: "str_includes s t \<longleftrightarrow> sublist t s"
  by (induction s) (simp_all add: sublist_Cons_right)

lemma nat_to_string_0: "nat_to_string 0 = ''0''"
  by (simp add: nat_to_string.simps digit_char_def)

text \<open>
  C6, as the code has it. In local mode, after \<^verbatim>\<open>search(term)\<close> the filtered rows are
  the rows for which the term is empty or some configured column has a truthy cell whose
  lower-cased string projection contains the lower-cased term, in their original order.
\<close>

theorem search_local_filter:
  assumes "\<not> serverSide (config g)"
  shows "filteredData (search (JStr term) g)
           = filter (lowered_match (columns (config g)) term) (originalData g)"
  using assms
  by (auto simp: search_def Let_def emit_def applyFilters_def lowered_match_def toLowerCase_def
      str_includes_sublist list_ex_iff intro!: filter_cong)

theorem search_local_filter_witness:
  "\<not> serverSide (config demo_local)
   \<and> filteredData (search (JStr ''AM'') demo_local)
       = filter (lowered_match (columns (config demo_local)) ''AM'') (originalData demo_local)
   \<and> filteredData (search (JStr ''AM'') demo_local) = [demo_rows ! 0]"
proof -
  have h: "\<not> serverSide (config demo_local)"
    by (simp add: demo_local_def new_fields_def demo_options_def)
  have v: "filteredData (search (JStr ''AM'') demo_local) = [demo_rows ! 0]"
    by (simp add: search_def Let_def emit_def applyFilters_def demo_local_def new_fields_def
        demo_options_def demo_rows_def getCellValue_def toLowerCase_def lower_char_def
        int_to_string_def nat_to_string.simps digit_char_def)
  from h search_local_filter [OF h, of "''AM''"] v show ?thesis
    by (intro conjI)
qed

text \<open>
  C6, as the claim words it, fails on a cell that holds the number 0: its string
  projection \<^verbatim>\<open>"0"\<close> contains the term \<^verbatim>\<open>"0"\<close>, and the row is filtered out.
\<close>

theorem search_zero_cell:
  "claimed_match (columns (config demo_local)) ''0'' (demo_rows ! 1)
   \<and> demo_rows ! 1 \<in> set (originalData demo_local)
   \<and> demo_rows ! 1 \<notin> set (filteredData (search (JStr ''0'') demo_local))"
proof (intro conjI)
  show "claimed_match (columns (config demo_local)) ''0'' (demo_rows ! 1)"
    by (simp add: claimed_match_def demo_local_def new_fields_def demo_options_def
        demo_rows_def getCellValue_def toLowerCase_def lower_char_def int_to_string_def
        nat_to_string_0)
  show "demo_rows ! 1 \<in> set (originalData demo_local)"
    by (simp add: demo_local_def demo_rows_def)
  show "demo_rows ! 1 \<notin> set (filteredData (search (JStr ''0'') demo_local))"
    by (simp add: search_def Let_def emit_def applyFilters_def demo_local_def new_fields_def
        demo_options_def demo_rows_def getCellValue_def toLowerCase_def lower_char_def
        int_to_string_def nat_to_string_0)
qed

subsection \<open>Sorting and the page size\<close>

lemma loadServerData_frame:
  "config (loadServerData g) = config g"
  "currentPage (loadServerData g) = currentPage g"
  "sortColumn (loadServerData g) = sortColumn g"
  "sortDirection (loadServerData g) = sortDirection g"
  "searchTerm (loadServerData g) = searchTerm g"
  "originalData (loadServerData g) = originalData g"
  "filteredData (loadServerData g) = filteredData g"
  "totalRecords (loadServerData g) = totalRecords g"
  "selectedRows (loadServerData g) = selectedRows g"
  by (simp_all add: loadServerData_def Let_def finally_block_def emit_def log_console_def
      split: option.split)

text \<open>
  The parts of C7 that hold: an unknown column is a warning and nothing else; with
  server-side processing a sort that passes validation sets the page to 1; an explicit
  direction is the direction afterwards; the current column without a direction flips.
\<close>

lemma sort_grid_unknown_column:
  assumes "c \<noteq> []" and "\<not> list_ex (\<lambda>col. key col = c) (columns (config g))"
  shows "sort_grid (JStr c) d g = g\<lparr>console := console g @ [Warn_column_missing c]\<rparr>"
  using assms by (simp add: sort_grid_def log_console_def)

lemma sort_grid_serverSide_page:
  assumes "c \<noteq> []" and "list_ex (\<lambda>col. key col = c) (columns (config g))"
    and "serverSide (config g)"
  shows "currentPage (sort_grid (JStr c) d g) = Num 1"
  using assms
  by (simp add: sort_grid_def Let_def emit_def log_console_def loadServerData_frame)

lemma sort_grid_direction:
  assumes "c \<noteq> []" and "list_ex (\<lambda>col. key col = c) (columns (config g))"
  shows "sortDirection (sort_grid (JStr c) (JStr ''asc'') g) = Asc"
    and "sortDirection (sort_grid (JStr c) (JStr ''desc'') g) = Desc"
    and "sortColumn g = Some c \<Longrightarrow>
         sortDirection (sort_grid (JStr c) JUndefined g)
           = (if sortDirection g = Asc then Desc else Asc)"
  using assms
  by (simp_all add: sort_grid_def Let_def emit_def log_console_def loadServerData_frame)

text \<open>
  C7 fails in local mode: on page 2 of the three rows (two per page), a sort by
  \<^verbatim>\<open>name\<close> leaves the grid on page 2.
\<close>

theorem sort_local_keeps_page:
  "map_option (\<lambda>g. (currentPage g, sortColumn g, sortDirection g))
     (run [Call_goToPage (Num 2), Call_sort (JStr ''name'') JUndefined] demo_local)
   = Some (Num 2, Some ''name'', Asc)"
  by (simp add: goToPage_def sort_grid_def Let_def emit_def demo_local_def new_fields_def
      demo_options_def demo_rows_def js_ge_def)

text \<open>
  C8, as the code has it. \<^verbatim>\<open>setPageSize(n)\<close> is a warning and nothing else when \<open>n\<close>
  is not a number or is a number below 1; for a number \<open>n\<close> of at least 1, integer or
  not, the page size becomes \<open>n\<close> and the page becomes 1.
\<close>

theorem setPageSize_number:
  "(\<forall>v. setPageSize (AOther v) g = g\<lparr>console := console g @ [Warn_page_size]\<rparr>)
   \<and> (\<forall>r. r < 1 \<longrightarrow>
          setPageSize (ANum (Num r)) g = g\<lparr>console := console g @ [Warn_page_size]\<rparr>)
   \<and> (\<forall>r. 1 \<le> r \<longrightarrow>
          pageSize (config (setPageSize (ANum (Num r)) g)) = Num r
          \<and> currentPage (setPageSize (ANum (Num r)) g) = Num 1)"
  by (simp add: setPageSize_def log_console_def Let_def emit_def loadServerData_frame)

theorem setPageSize_number_witness:
  "(1 / 2 :: real) < 1
   \<and> setPageSize (ANum (Num (1 / 2))) demo_local
       = demo_local\<lparr>console := console demo_local @ [Warn_page_size]\<rparr>
   \<and> (1 :: real) \<le> 25
   \<and> pageSize (config (setPageSize (ANum (Num 25)) demo_local)) = Num 25
   \<and> currentPage (setPageSize (ANum (Num 25)) demo_local) = Num 1"
proof -
  note t = setPageSize_number [of demo_local]
  from t have low: "\<forall>r. r < 1 \<longrightarrow>
      setPageSize (ANum (Num r)) demo_local
        = demo_local\<lparr>console := console demo_local @ [Warn_page_size]\<rparr>"
    by blast
  from t have high: "\<forall>r. 1 \<le> r \<longrightarrow>
      pageSize (config (setPageSize (ANum (Num r)) demo_local)) = Num r
      \<and> currentPage (setPageSize (ANum (Num r)) demo_local) = Num 1"
    by blast
  have a: "(1 / 2 :: real) < 1" and b: "(1 :: real) \<le> 25"
    by simp_all
  from a b low [rule_format, OF a] high [rule_format, OF b] show ?thesis
    by (intro conjI) blast+
qed

text \<open>
  C8, as the claim words it, fails at 5/2, which is not an integer: the page size of
  the demo grid goes from 2 to 5/2.
\<close>

theorem setPageSize_fraction:
  "(\<forall>k::int. (5 / 2 :: real) \<noteq> of_int k)
   \<and> pageSize (config demo_local) = Num 2
   \<and> pageSize (config (setPageSize (ANum (Num (5 / 2))) demo_local)) = Num (5 / 2)"
proof -
  have "(5 / 2 :: real) \<noteq> of_int k" for k :: int
  proof
    assume "(5 / 2 :: real) = of_int k"
    then have "(of_int (2 * k) :: real) = of_int 5"
      by simp
    then have "2 * k = 5"
      by (simp only: of_int_eq_iff)
    then show False
      by presburger
  qed
  then show ?thesis
    by (simp add: setPageSize_def Let_def emit_def demo_local_def new_fields_def
        demo_options_def)
qed

subsection \<open>Delivery to subscribers\<close>

lemma forEach_callback_prefix:
  "forEach_callback cbs d =
     (map cb_id (takeWhile (\<lambda>cb. cb_call cb d = Returns) cbs
                 @ take 1 (dropWhile (\<lambda>cb. cb_call cb d = Returns) cbs)),
      (case dropWhile (\<lambda>cb. cb_call cb d = Returns) cbs of
         [] \<Rightarrow> None
       | cb # rest \<Rightarrow> (case cb_call cb d of Raises e \<Rightarrow> Some e | Returns \<Rightarrow> None)))"
  by (induction cbs) (auto split: cb_result.splits)

text \<open>
  C9, as the code has it. The subscribers of an event are called in subscription order
  up to and including the first one that raises; the later ones are not called, and the
  error leaves \<^verbatim>\<open>emit\<close>. When none raises, all are called.
\<close>

theorem emit_stops_at_raise:
  assumes "events name = Some cbs"
  shows "emit_forEach events name d =
     (map cb_id (takeWhile (\<lambda>cb. cb_call cb d = Returns) cbs
                 @ take 1 (dropWhile (\<lambda>cb. cb_call cb d = Returns) cbs)),
      (case dropWhile (\<lambda>cb. cb_call cb d = Returns) cbs of
         [] \<Rightarrow> None
       | cb # rest \<Rightarrow> (case cb_call cb d of Raises e \<Rightarrow> Some e | Returns \<Rightarrow> None)))"
  using assms by (simp add: emit_forEach_def forEach_callback_prefix)

lemma demo_events_search:
  "demo_events ''search''
     = Some [\<lparr>cb_id = 1, cb_call = (\<lambda>d. Raises ''boom'')\<rparr>, \<lparr>cb_id = 2, cb_call = (\<lambda>d. Returns)\<rparr>]"
  by (simp add: demo_events_def on_event_def)

theorem emit_stops_at_raise_witness:
  "demo_events ''search''
     = Some [\<lparr>cb_id = 1, cb_call = (\<lambda>d. Raises ''boom'')\<rparr>, \<lparr>cb_id = 2, cb_call = (\<lambda>d. Returns)\<rparr>]
   \<and> emit_forEach demo_events ''search'' (Ev_search ''a'') = ([1], Some ''boom'')"
  using demo_events_search
    emit_stops_at_raise [where events = demo_events and name = "''search''"
      and d = "Ev_search ''a''", OF demo_events_search]
  by simp

text \<open>
  C9, as the claim words it, fails with two subscribers of which the first raises: the
  second is not called.
\<close>

theorem emit_raise_blocks_later:
  "map cb_id (the (demo_events ''search'')) = [1, 2]
   \<and> fst (emit_forEach demo_events ''search'' (Ev_search ''a'')) = [1]"
  by (simp add: demo_events_def on_event_def emit_forEach_def)

subsection \<open>The remote engine: which response commits\<close>

lemma latest_only_same:
  assumes "pending h = pending g" and "requestId h = requestId g" and "isLoading h = isLoading g"
  shows "latest_only h = latest_only g"
  using assms by (simp add: latest_only_def)

lemma loadServerData_latest_only: "latest_only g \<Longrightarrow> latest_only (loadServerData g)"
  by (auto simp: latest_only_def loadServerData_def Let_def finally_block_def emit_def
      log_console_def split: option.split)

lemma emit_latest_only [simp]: "latest_only (emit e g) = latest_only g"
  by (rule latest_only_same) (simp_all add: emit_def)

lemma log_console_latest_only [simp]: "latest_only (log_console m g) = latest_only g"
  by (rule latest_only_same) (simp_all add: log_console_def)

lemma latest_only_update [simp]:
  "latest_only (g\<lparr>config := a1\<rparr>) = latest_only g"
  "latest_only (g\<lparr>currentPage := a2\<rparr>) = latest_only g"
  "latest_only (g\<lparr>sortColumn := a3\<rparr>) = latest_only g"
  "latest_only (g\<lparr>sortDirection := a4\<rparr>) = latest_only g"
  "latest_only (g\<lparr>searchTerm := a5\<rparr>) = latest_only g"
  "latest_only (g\<lparr>filteredData := a6\<rparr>) = latest_only g"
  "latest_only (g\<lparr>originalData := a7\<rparr>) = latest_only g"
  "latest_only (g\<lparr>totalRecords := a8\<rparr>) = latest_only g"
  "latest_only (g\<lparr>retryCount := a9\<rparr>) = latest_only g"
  "latest_only (g\<lparr>clock := b1\<rparr>) = latest_only g"
  "latest_only (g\<lparr>timers := b2\<rparr>) = latest_only g"
  "latest_only (g\<lparr>nextTimer := b3\<rparr>) = latest_only g"
  "latest_only (g\<lparr>inputValue := b4\<rparr>) = latest_only g"
  "latest_only (g\<lparr>searchTimeout := b5\<rparr>) = latest_only g"
  "latest_only (g\<lparr>aborted := b6\<rparr>) = latest_only g"
  by (simp_all add: latest_only_def)

lemma latest_only_if:
  "latest_only (if c then g else h) = (if c then latest_only g else latest_only h)"
  by simp

lemma applyFilters_latest_only [simp]: "latest_only (applyFilters g) = latest_only g"
  by (simp add: applyFilters_def)

lemma loadServerData_latest_only_simp [simp]:
  "latest_only g \<Longrightarrow> latest_only (loadServerData g) = True"
  by (simp add: loadServerData_latest_only)

lemma search_latest_only: "latest_only g \<Longrightarrow> latest_only (search t g)"
  by (simp add: search_def Let_def latest_only_if)

lemma sort_grid_latest_only: "latest_only g \<Longrightarrow> latest_only (sort_grid c d g)"
  by (cases c) (simp_all add: sort_grid_def Let_def latest_only_if)

lemma goToPage_latest_only: "latest_only g \<Longrightarrow> latest_only (goToPage p g)"
  by (simp add: goToPage_def Let_def latest_only_if)

lemma setPageSize_latest_only: "latest_only g \<Longrightarrow> latest_only (setPageSize sz g)"
  by (cases sz) (simp_all add: setPageSize_def Let_def latest_only_if)

lemma refresh_latest_only: "latest_only g \<Longrightarrow> latest_only (refresh g)"
  by (simp add: refresh_def)

lemma clearTimeout_latest_only [simp]: "latest_only (clearTimeout t g) = latest_only g"
  by (rule latest_only_same) (simp_all add: clearTimeout_def)

lemma setTimeout_latest_only [simp]: "latest_only (setTimeout a d g) = latest_only g"
  by (rule latest_only_same) (simp_all add: setTimeout_def)

lemma debouncedSearch_latest_only: "latest_only g \<Longrightarrow> latest_only (debouncedSearch v g)"
  by (simp add: debouncedSearch_def Let_def)

lemma fire_action_latest_only: "latest_only g \<Longrightarrow> latest_only (fire_action a g)"
  by (cases a) (simp_all add: search_latest_only loadServerData_latest_only)

lemma finally_block_latest_only: "pending g = [] \<Longrightarrow> latest_only (finally_block g)"
  by (simp add: latest_only_def finally_block_def Let_def emit_def)

lemma try_block_pending: "pending (snd (try_block rid oc g)) = pending g"
  by (simp add: try_block_def Let_def log_console_def emit_def
      split: outcome.split jsval.split)

lemma catch_block_pending: "pending (catch_block err g) = pending g"
  by (simp add: catch_block_def Let_def log_console_def emit_def setTimeout_def)

lemma resume_latest_only:
  assumes "latest_only g" and "rid \<in> set (pending g)"
  shows "latest_only (resume rid oc g)"
proof -
  from assms have p: "pending g = [rid]"
    by (auto simp: latest_only_def)
  define oc' where "oc' = (if rid \<in> set (aborted g) then Fetch_aborted else oc)"
  define g0 where "g0 = g\<lparr>pending := removeAll rid (pending g)\<rparr>"
  have g0: "pending g0 = []"
    by (simp add: g0_def p)
  obtain e g1 where t: "try_block rid oc' g0 = (e, g1)"
    by (cases "try_block rid oc' g0")
  have g1: "pending g1 = []"
    using try_block_pending [of rid oc' g0] t g0 by simp
  have "resume rid oc g = (case e of None \<Rightarrow> finally_block g1 | Some err \<Rightarrow> finally_block (catch_block err g1))"
    by (simp add: resume_def Let_def t [unfolded oc'_def g0_def])
  then show ?thesis
    using g1 by (simp add: finally_block_latest_only catch_block_pending split: option.split)
qed

lemma step_latest_only:
  assumes "latest_only g" and "step e g = Some g'"
  shows "latest_only g'"
proof (cases e)
  case (Tick d)
  with assms show ?thesis
    by (auto simp: latest_only_def split: if_splits)
next
  case (Fire t)
  with assms show ?thesis
    by (auto simp: fire_action_latest_only split: option.splits if_splits)
next
  case (Respond rid oc)
  with assms show ?thesis
    by (auto simp: resume_latest_only split: if_splits)
qed (use assms in \<open>auto simp: search_latest_only sort_grid_latest_only goToPage_latest_only
      setPageSize_latest_only refresh_latest_only debouncedSearch_latest_only\<close>)

lemma run_latest_only:
  "latest_only g \<Longrightarrow> run es g = Some g' \<Longrightarrow> latest_only g'"
  by (induction es arbitrary: g) (auto split: option.splits dest: step_latest_only)

lemma QMGrid_latest_only: "QMGrid options srt = Some g \<Longrightarrow> latest_only g"
proof -
  assume a: "QMGrid options srt = Some g"
  have n: "latest_only (new_fields options srt)"
    by (simp add: latest_only_def new_fields_def)
  have m: "latest_only ((new_fields options srt)\<lparr>originalData := x, filteredData := y, totalRecords := z\<rparr>)"
    "latest_only ((new_fields options srt)\<lparr>originalData := x, filteredData := y\<rparr>)" for x y z
    by (simp_all add: latest_only_def new_fields_def)
  show ?thesis
    using a by (auto simp: QMGrid_def init_def n split: if_splits)
qed


lemma resume_commit_token:
  assumes "committed_view (resume rid oc g) \<noteq> committed_view g"
  shows "\<exists>result. oc = Fetch_json result
           \<and> (\<not> truthy (echoed_token g result) \<or> echoed_token g result = JNum (int rid))"
  using assms
  by (auto simp: committed_view_def echoed_token_def resume_def try_block_def catch_block_def
      finally_block_def Let_def emit_def log_console_def setTimeout_def
      split: outcome.splits jsval.splits if_splits)


lemma resume_discards_stale:
  assumes "truthy (echoed_token g result)" and "echoed_token g result \<noteq> JNum (int rid)"
  shows "committed_view (resume rid (Fetch_json result) g) = committed_view g
       \<and> emitted (resume rid (Fetch_json result) g) = emitted g @ [Ev_serverRequestEnd (view_of g)]"
  using assms
  by (simp add: committed_view_def echoed_token_def resume_def try_block_def catch_block_def
      finally_block_def Let_def emit_def log_console_def view_of_def)

text \<open>
  C1, as the code has it. In every state a remote grid reaches, the only request that
  can resume is the one issued last, so no response of an earlier request arrives once a
  later one has been issued. A response changes the rows or the total only if it carries
  a body whose echoed token is absent (falsy) or equals the token issued last; a body
  whose echoed token is present and differs is discarded: rows and total stay, and the
  only event is the end of the request.
\<close>

theorem only_latest_commits:
  assumes "QMGrid options srt = Some g0" and "run es g0 = Some g"
    and "step (Respond rid oc) g = Some g'"
  shows "pending g = [requestId g] \<and> rid = requestId g
       \<and> (committed_view g' \<noteq> committed_view g \<longrightarrow>
            (\<exists>result. oc = Fetch_json result
               \<and> (\<not> truthy (echoed_token g result)
                    \<or> echoed_token g result = JNum (int (requestId g)))))
       \<and> (\<forall>result. oc = Fetch_json result \<and> truthy (echoed_token g result)
               \<and> echoed_token g result \<noteq> JNum (int (requestId g)) \<longrightarrow>
             committed_view g' = committed_view g
             \<and> emitted g' = emitted g @ [Ev_serverRequestEnd (view_of g)])"
proof -
  have inv: "latest_only g"
    using assms(1,2) by (blast intro: run_latest_only QMGrid_latest_only)
  from assms(3) have rid: "rid \<in> set (pending g)" and g': "g' = resume rid oc g"
    by (auto split: if_splits)
  from inv rid have p: "pending g = [requestId g]" and r: "rid = requestId g"
    by (auto simp: latest_only_def)
  show ?thesis
    using p r resume_commit_token [of rid oc g] resume_discards_stale [of g _ rid]
    unfolding g' by blast
qed

lemma demo_remote_eq:
  "demo_remote = (new_fields demo_remote_options stable_sort)
     \<lparr>isLoading := True, currentRequest := Some 1, requestId := 1, pending := [1],
      sent := [\<lparr>req_page = Num 1, req_pageSize = Num 2, req_search = [], req_sortBy = None,
                req_sortDir = Asc, req_draw = 1\<rparr>],
      emitted := [Ev_serverRequestStart (Num 1, [], None, Asc)]\<rparr>"
  by (simp add: demo_remote_def loadServerData_def Let_def emit_def view_of_def request_params_def
      new_fields_def demo_remote_options_def demo_options_def)

lemma QMGrid_demo_remote: "QMGrid demo_remote_options stable_sort = Some demo_remote"
  by (simp add: QMGrid_def init_def demo_remote_def new_fields_def demo_remote_options_def demo_options_def)

lemma split_dot_simple: "CHR ''.'' \<notin> set s \<Longrightarrow> split_dot s = [s]"
  by (induction s) auto

lemma demo_paths:
  "getNestedValue demo_page_no_draw ''draw'' = JNull"
  "getNestedValue demo_page_no_draw ''error'' = JNull"
  "getNestedValue demo_page_no_draw ''total'' = JNum 3"
  "getNestedValue demo_page_no_draw ''data'' = JArr [JObj [(''name'', JStr ''Ama''), (''age'', JNum 30)],
                            JObj [(''name'', JStr ''Kofi''), (''age'', JNum 0)]]"
  "getNestedValue demo_page ''draw'' = JNum 1"
  "getNestedValue demo_page ''error'' = JNull"
  "getNestedValue demo_page ''total'' = JNum 3"
  "getNestedValue demo_page ''data'' = JArr [JObj [(''name'', JStr ''Ama''), (''age'', JNum 30)],
                            JObj [(''name'', JStr ''Kofi''), (''age'', JNum 0)]]"
  by (simp_all add: getNestedValue_def demo_page_no_draw_def demo_page_def split_dot_simple)

lemma demo_loaded_eq:
  "demo_loaded = demo_remote
     \<lparr>originalData := [JObj [(''name'', JStr ''Ama''), (''age'', JNum 30)],
                        JObj [(''name'', JStr ''Kofi''), (''age'', JNum 0)]],
      filteredData := [JObj [(''name'', JStr ''Ama''), (''age'', JNum 30)],
                        JObj [(''name'', JStr ''Kofi''), (''age'', JNum 0)]],
      totalRecords := 3, isLoading := False, currentRequest := None, pending := [],
      emitted := [Ev_serverRequestStart (Num 1, [], None, Asc),
                  Ev_serverDataLoaded
                    [JObj [(''name'', JStr ''Ama''), (''age'', JNum 30)],
                     JObj [(''name'', JStr ''Kofi''), (''age'', JNum 0)]] 3
                    (Num 1, [], None, Asc),
                  Ev_serverRequestEnd (Num 1, [], None, Asc)]\<rparr>"
  by (simp add: demo_loaded_def demo_remote_eq new_fields_def demo_remote_options_def
      demo_options_def demo_paths resume_def try_block_def finally_block_def Let_def emit_def
      view_of_def)

text \<open>
  C1, as the claim words it, fails on a response that echoes no token: the token issued
  last is 1, the body has no \<^verbatim>\<open>draw\<close>, and its rows and total are committed.
\<close>

theorem commit_without_token:
  "requestId demo_remote = 1
   \<and> echoed_token demo_remote demo_page_no_draw = JNull
   \<and> committed_view demo_remote = ([], [], 0)
   \<and> map_option committed_view (run [Respond 1 (Fetch_json demo_page_no_draw)] demo_remote)
       = Some ([JObj [(''name'', JStr ''Ama''), (''age'', JNum 30)],
                JObj [(''name'', JStr ''Kofi''), (''age'', JNum 0)]],
               [JObj [(''name'', JStr ''Ama''), (''age'', JNum 30)],
                JObj [(''name'', JStr ''Kofi''), (''age'', JNum 0)]], 3)"
  by (simp add: demo_remote_eq new_fields_def demo_remote_options_def demo_options_def
      echoed_token_def committed_view_def demo_paths resume_def try_block_def finally_block_def
      Let_def emit_def)


theorem only_latest_commits_witness:
  "QMGrid demo_remote_options stable_sort = Some demo_remote
   \<and> run [] demo_remote = Some demo_remote
   \<and> step (Respond 1 (Fetch_json demo_stale)) demo_remote
       = Some (resume 1 (Fetch_json demo_stale) demo_remote)
   \<and> truthy (echoed_token demo_remote demo_stale)
   \<and> echoed_token demo_remote demo_stale \<noteq> JNum (int (requestId demo_remote))
   \<and> pending demo_remote = [requestId demo_remote]
   \<and> committed_view (resume 1 (Fetch_json demo_stale) demo_remote) = committed_view demo_remote"
proof -
  have h1: "QMGrid demo_remote_options stable_sort = Some demo_remote"
    by (rule QMGrid_demo_remote)
  have h2: "run [] demo_remote = Some demo_remote"
    by simp
  have h3: "step (Respond 1 (Fetch_json demo_stale)) demo_remote
              = Some (resume 1 (Fetch_json demo_stale) demo_remote)"
    by (simp add: demo_remote_eq)
  have tok: "echoed_token demo_remote demo_stale = JNum 7"
    by (simp add: echoed_token_def demo_remote_eq new_fields_def demo_remote_options_def
        demo_options_def getNestedValue_def demo_stale_def split_dot_simple)
  have rid: "requestId demo_remote = 1"
    by (simp add: demo_remote_eq)
  have h4: "truthy (echoed_token demo_remote demo_stale)"
    and h5: "echoed_token demo_remote demo_stale \<noteq> JNum (int (requestId demo_remote))"
    by (simp_all add: tok rid)
  note t = only_latest_commits [OF h1 h2 h3]
  from t have a: "pending demo_remote = [requestId demo_remote]"
    by blast
  from t h4 h5 have b: "committed_view (resume 1 (Fetch_json demo_stale) demo_remote)
                          = committed_view demo_remote"
    by blast
  from h1 h2 h3 h4 h5 a b show ?thesis
    by (intro conjI)
qed

subsection \<open>The remote engine: dispatch\<close>

lemma loadServerData_while_loading:
  assumes "truthy (ajax_url (config g))" and "isLoading g"
  shows "loadServerData g = g\<lparr>aborted := (case currentRequest g of
                                             Some c \<Rightarrow> aborted g @ [c]
                                           | None \<Rightarrow> aborted g)\<rparr>"
  using assms by (simp add: loadServerData_def Let_def split: option.split)

lemma request_params_frame:
  "request_params (g\<lparr>isLoading := a, emitted := b, requestId := r\<rparr>) = request_params (g\<lparr>requestId := r\<rparr>)"
  "request_params (g\<lparr>aborted := c, isLoading := a, emitted := b, requestId := r\<rparr>) = request_params (g\<lparr>requestId := r\<rparr>)"
  by (simp_all add: request_params_def)

lemma loadServerData_dispatch:
  assumes "truthy (ajax_url (config g))" and "\<not> isLoading g"
    and "\<forall>hook. ajax_beforeSend (config g) = Some hook \<longrightarrow>
           hook (request_params (g\<lparr>requestId := Suc (requestId g)\<rparr>)) \<noteq> JBool False"
  shows "sent (loadServerData g) = sent g @ [request_params (g\<lparr>requestId := Suc (requestId g)\<rparr>)]"
    and "pending (loadServerData g) = pending g @ [Suc (requestId g)]"
    and "requestId (loadServerData g) = Suc (requestId g)"
    and "isLoading (loadServerData g)"
  using assms
  by (auto simp: loadServerData_def Let_def emit_def request_params_def
      split: option.split)

text \<open>
  C4, as the code has it. When the pre-send hook returns \<^verbatim>\<open>false\<close> for the request
  of an idle grid, nothing is sent or left pending, the rows, the total, the page, the
  search term, the sort order and the selection are unchanged, and the grid is not
  loading; the events of the reconciliation are the start and the end of the request,
  with no data-loaded and no error event; and the request counter has advanced by one.
\<close>

theorem beforeSend_veto:
  assumes "truthy (ajax_url (config g))" and "\<not> isLoading g"
    and "ajax_beforeSend (config g) = Some hook"
    and "hook (request_params (g\<lparr>requestId := Suc (requestId g)\<rparr>)) = JBool False"
  shows "sent (loadServerData g) = sent g
       \<and> pending (loadServerData g) = pending g
       \<and> committed_view (loadServerData g) = committed_view g
       \<and> view_of (loadServerData g) = view_of g
       \<and> selectedRows (loadServerData g) = selectedRows g
       \<and> \<not> isLoading (loadServerData g)
       \<and> requestId (loadServerData g) = Suc (requestId g)
       \<and> emitted (loadServerData g)
           = emitted g @ [Ev_serverRequestStart (view_of g), Ev_serverRequestEnd (view_of g)]"
  using assms
  by (auto simp: loadServerData_def Let_def emit_def request_params_def finally_block_def
      committed_view_def view_of_def split: option.split)

lemma demo_veto_eq:
  "demo_veto = (new_fields (demo_remote_options\<lparr>ajax_beforeSend := Some (\<lambda>ps. JBool False)\<rparr>) stable_sort)
     \<lparr>requestId := 1,
      emitted := [Ev_serverRequestStart (Num 1, [], None, Asc), Ev_serverRequestEnd (Num 1, [], None, Asc)]\<rparr>"
  by (simp add: demo_veto_def loadServerData_def Let_def emit_def view_of_def request_params_def
      finally_block_def new_fields_def demo_remote_options_def demo_options_def)

theorem beforeSend_veto_witness:
  "truthy (ajax_url (config demo_veto)) \<and> \<not> isLoading demo_veto
   \<and> ajax_beforeSend (config demo_veto) = Some (\<lambda>ps. JBool False)
   \<and> sent (loadServerData demo_veto) = sent demo_veto
   \<and> committed_view (loadServerData demo_veto) = committed_view demo_veto
   \<and> requestId (loadServerData demo_veto) = Suc (requestId demo_veto)
   \<and> emitted (loadServerData demo_veto)
       = emitted demo_veto @ [Ev_serverRequestStart (view_of demo_veto),
                              Ev_serverRequestEnd (view_of demo_veto)]"
proof -
  have h1: "truthy (ajax_url (config demo_veto))" and h2: "\<not> isLoading demo_veto"
    and h3: "ajax_beforeSend (config demo_veto) = Some (\<lambda>ps. JBool False)"
    by (simp_all add: demo_veto_eq new_fields_def demo_remote_options_def demo_options_def)
  have h4: "(\<lambda>ps. JBool False) (request_params (demo_veto\<lparr>requestId := Suc (requestId demo_veto)\<rparr>))
              = JBool False"
    by simp
  note t = beforeSend_veto [OF h1 h2 h3 h4]
  from t have a: "sent (loadServerData demo_veto) = sent demo_veto"
    and b: "committed_view (loadServerData demo_veto) = committed_view demo_veto"
    and r: "requestId (loadServerData demo_veto) = Suc (requestId demo_veto)"
    and c: "emitted (loadServerData demo_veto)
              = emitted demo_veto @ [Ev_serverRequestStart (view_of demo_veto),
                                     Ev_serverRequestEnd (view_of demo_veto)]"
    by blast+
  from h1 h2 h3 a b r c show ?thesis
    by (intro conjI)
qed

text \<open>
  C4, as the claim words it, fails on the events: a vetoed \<^verbatim>\<open>refresh\<close> sends nothing,
  takes the request counter from 1 to 2, and emits \<^verbatim>\<open>serverRequestStart\<close> and
  \<^verbatim>\<open>serverRequestEnd\<close>.
\<close>

theorem veto_emits_events:
  "sent (refresh demo_veto) = []
   \<and> requestId demo_veto = 1 \<and> requestId (refresh demo_veto) = 2
   \<and> emitted (refresh demo_veto)
       = emitted demo_veto @ [Ev_serverRequestStart (Num 1, [], None, Asc),
                              Ev_serverRequestEnd (Num 1, [], None, Asc)]"
  by (simp add: refresh_def demo_veto_eq loadServerData_def Let_def emit_def view_of_def
      request_params_def finally_block_def new_fields_def demo_remote_options_def demo_options_def)

text \<open>
  C3 fails when a request is in flight. The first page is loading when \<^verbatim>\<open>sort('name')\<close>
  is called: the sort column changes, the request in flight is aborted, and no request is
  sent for the sort; when the aborted request resumes, the grid is idle with no rows and
  still only the first request sent.
\<close>

theorem mutation_while_loading:
  "isLoading demo_remote \<and> length (sent demo_remote) = 1
   \<and> map_option (\<lambda>g. (sortColumn g, length (sent g), pending g, aborted g))
        (run [Call_sort (JStr ''name'') JUndefined] demo_remote)
       = Some (Some ''name'', 1, [1], [1])
   \<and> map_option (\<lambda>g. (sortColumn g, length (sent g), pending g, isLoading g, filteredData g))
        (run [Call_sort (JStr ''name'') JUndefined, Respond 1 (Fetch_json demo_page)] demo_remote)
       = Some (Some ''name'', 1, [], False, [])"
  by (simp add: demo_remote_eq new_fields_def demo_remote_options_def demo_options_def
      sort_grid_def loadServerData_def Let_def emit_def resume_def try_block_def catch_block_def
      finally_block_def log_console_def)

subsection \<open>The remote engine: retries\<close>










lemma run_append:
  "run (xs @ ys) g = (case run xs g of None \<Rightarrow> None | Some g' \<Rightarrow> run ys g')"
  by (induction xs arbitrary: g) (auto split: option.splits)






subsection \<open>The remote engine: debounced search\<close>

lemma debouncedSearch_rearm:
  assumes "timers g = [] \<or> (\<exists>t due. timers g = [(t, due, Debounced_search)] \<and> searchTimeout g = Some t)"
  shows "debouncedSearch v g =
           g\<lparr>inputValue := v,
             timers := [(nextTimer g, clock g + SEARCH_DEBOUNCE_DELAY, Debounced_search)],
             nextTimer := Suc (nextTimer g),
             searchTimeout := Some (nextTimer g)\<rparr>"
  using assms
  by (auto simp: debouncedSearch_def Let_def clearTimeout_def setTimeout_def)

lemma debouncedSearch_armed:
  assumes "timers g = [] \<or> (\<exists>t due. timers g = [(t, due, Debounced_search)] \<and> searchTimeout g = Some t)"
  shows "armed v (debouncedSearch v g)" and "engine_of (debouncedSearch v g) = engine_of g"
  unfolding debouncedSearch_rearm [OF assms]
  by (simp_all add: armed_def engine_of_def)

lemma type_first:
  assumes "timers g = []"
  shows "\<exists>g'. run [Tick gap, Input v] g = Some g' \<and> armed v g' \<and> engine_of g' = engine_of g"
proof -
  have t: "timers (g\<lparr>clock := clock g + gap\<rparr>) = [] \<or> (\<exists>t due. timers (g\<lparr>clock := clock g + gap\<rparr>) = [(t, due, Debounced_search)] \<and> searchTimeout (g\<lparr>clock := clock g + gap\<rparr>) = Some t)"
    using assms by simp
  have "run [Tick gap, Input v] g = Some (debouncedSearch v (g\<lparr>clock := clock g + gap\<rparr>))"
    using assms by simp
  moreover have "engine_of (g\<lparr>clock := clock g + gap\<rparr>) = engine_of g"
    by (simp add: engine_of_def)
  ultimately show ?thesis
    using debouncedSearch_armed [OF t, of v] by simp
qed

lemma type_next:
  assumes "armed v g" and "gap < SEARCH_DEBOUNCE_DELAY"
  shows "\<exists>g'. run [Tick gap, Input v'] g = Some g' \<and> armed v' g' \<and> engine_of g' = engine_of g"
proof -
  from assms(1) obtain t where
    tm: "timers g = [(t, clock g + SEARCH_DEBOUNCE_DELAY, Debounced_search)]"
    and st: "searchTimeout g = Some t"
    by (auto simp: armed_def)
  have t: "timers (g\<lparr>clock := clock g + gap\<rparr>) = [] \<or> (\<exists>t due. timers (g\<lparr>clock := clock g + gap\<rparr>) = [(t, due, Debounced_search)] \<and> searchTimeout (g\<lparr>clock := clock g + gap\<rparr>) = Some t)"
    using tm st by simp
  have "run [Tick gap, Input v'] g = Some (debouncedSearch v' (g\<lparr>clock := clock g + gap\<rparr>))"
    using tm assms(2) by simp
  moreover have "engine_of (g\<lparr>clock := clock g + gap\<rparr>) = engine_of g"
    by (simp add: engine_of_def)
  ultimately show ?thesis
    using debouncedSearch_armed [OF t, of v'] by simp
qed

lemma type_rest:
  assumes "armed v g" and "\<forall>(gap, v') \<in> set rest. gap < SEARCH_DEBOUNCE_DELAY"
  shows "\<exists>g'. run (typing rest) g = Some g' \<and> armed (last (v # map snd rest)) g'
           \<and> engine_of g' = engine_of g"
  using assms
proof (induction rest arbitrary: g v)
  case Nil
  then show ?case by simp
next
  case (Cons p rest)
  obtain gap v' where p: "p = (gap, v')"
    by (cases p)
  from Cons.prems(2) have gap: "gap < SEARCH_DEBOUNCE_DELAY"
    and rest: "\<forall>(gap, v') \<in> set rest. gap < SEARCH_DEBOUNCE_DELAY"
    by (simp_all add: p)
  from type_next [OF Cons.prems(1) gap, of v'] obtain g1 where
    r1: "run [Tick gap, Input v'] g = Some g1" and a1: "armed v' g1"
    and e1: "engine_of g1 = engine_of g"
    by blast
  from Cons.IH [OF a1 rest] obtain g' where
    r2: "run (typing rest) g1 = Some g'" and a2: "armed (last (v' # map snd rest)) g'"
    and e2: "engine_of g' = engine_of g1"
    by blast
  have tr: "typing (p # rest) = [Tick gap, Input v'] @ typing rest"
    by (simp add: p)
  have "run (typing (p # rest)) g = Some g'"
    unfolding tr run_append r1 using r2 by (simp only: option.case)
  then show ?case
    using a2 e1 e2 by (auto simp: p simp del: run.simps step.simps)
qed


lemma engine_of_eqD:
  assumes "engine_of a = engine_of b"
  shows "sent a = sent b" and "config a = config b" and "isLoading a = isLoading b"
    and "sortColumn a = sortColumn b" and "sortDirection a = sortDirection b"
    and "requestId a = requestId b"
proof -
  have "sent (engine_of a) = sent (engine_of b)" "config (engine_of a) = config (engine_of b)"
    "isLoading (engine_of a) = isLoading (engine_of b)"
    "sortColumn (engine_of a) = sortColumn (engine_of b)"
    "sortDirection (engine_of a) = sortDirection (engine_of b)"
    "requestId (engine_of a) = requestId (engine_of b)"
    using assms by simp_all
  then show "sent a = sent b" and "config a = config b" and "isLoading a = isLoading b"
    and "sortColumn a = sortColumn b" and "sortDirection a = sortDirection b"
    and "requestId a = requestId b"
    by (simp_all add: engine_of_def)
qed

lemma never_vetoes_cong: "config a = config b \<Longrightarrow> never_vetoes a = never_vetoes b"
  by (simp add: never_vetoes_def)

lemma search_sent_idle:
  assumes "serverSide (config g)" and "truthy (ajax_url (config g))" and "never_vetoes g"
    and "\<not> isLoading g"
  shows "sent (search (JStr v) g) =
           sent g @ [\<lparr>req_page = Num 1, req_pageSize = pageSize (config g),
                      req_search = toLowerCase v, req_sortBy = sortColumn g,
                      req_sortDir = sortDirection g, req_draw = Suc (requestId g)\<rparr>]"
proof -
  define h where "h = g\<lparr>searchTerm := toLowerCase v, currentPage := Num 1\<rparr>"
  have c: "truthy (ajax_url (config h))" "\<not> isLoading h"
    "\<forall>hook. ajax_beforeSend (config h) = Some hook \<longrightarrow>
        hook (request_params (h\<lparr>requestId := Suc (requestId h)\<rparr>)) \<noteq> JBool False"
    using assms by (auto simp: h_def never_vetoes_def)
  have "sent (search (JStr v) g) = sent (loadServerData h)"
    using assms(1) by (simp add: search_def Let_def emit_def h_def)
  also have "\<dots> = sent h @ [request_params (h\<lparr>requestId := Suc (requestId h)\<rparr>)]"
    by (rule loadServerData_dispatch(1) [OF c])
  finally show ?thesis
    by (simp add: h_def request_params_def)
qed

lemma fire_armed:
  assumes "timers g = [(t, clock g + SEARCH_DEBOUNCE_DELAY, Debounced_search)]"
    and "inputValue g = v"
    and "serverSide (config g)" and "truthy (ajax_url (config g))" and "never_vetoes g"
    and "\<not> isLoading g"
  shows "\<forall>d < SEARCH_DEBOUNCE_DELAY. run [Tick d, Fire t] g = None"
    and "\<exists>g2. run [Tick SEARCH_DEBOUNCE_DELAY, Fire t] g = Some g2
           \<and> sent g2 = sent g @ [\<lparr>req_page = Num 1, req_pageSize = pageSize (config g),
                      req_search = toLowerCase v, req_sortBy = sortColumn g,
                      req_sortDir = sortDirection g, req_draw = Suc (requestId g)\<rparr>]"
proof -
  show "\<forall>d < SEARCH_DEBOUNCE_DELAY. run [Tick d, Fire t] g = None"
    using assms(1) by simp
  define h where "h = clearTimeout (Some t) (g\<lparr>clock := clock g + SEARCH_DEBOUNCE_DELAY\<rparr>)"
  have r: "run [Tick SEARCH_DEBOUNCE_DELAY, Fire t] g = Some (search (JStr v) h)"
    using assms(1,2) by (simp add: h_def clearTimeout_def)
  have c: "serverSide (config h)" "truthy (ajax_url (config h))" "never_vetoes h" "\<not> isLoading h"
    using assms(3-6) by (simp_all add: h_def clearTimeout_def never_vetoes_def)
  have "sent (search (JStr v) h) =
           sent g @ [\<lparr>req_page = Num 1, req_pageSize = pageSize (config g),
                      req_search = toLowerCase v, req_sortBy = sortColumn g,
                      req_sortDir = sortDirection g, req_draw = Suc (requestId g)\<rparr>]"
    unfolding search_sent_idle [OF c] by (simp add: h_def clearTimeout_def)
  with r show "\<exists>g2. run [Tick SEARCH_DEBOUNCE_DELAY, Fire t] g = Some g2
           \<and> sent g2 = sent g @ [\<lparr>req_page = Num 1, req_pageSize = pageSize (config g),
                      req_search = toLowerCase v, req_sortBy = sortColumn g,
                      req_sortDir = sortDirection g, req_draw = Suc (requestId g)\<rparr>]"
    by blast
qed

text \<open>
  What the debounce of the search box guarantees. An idle remote grid with no timer
  pending receives changes of its search box, each less than the debounce delay after
  the one before. Typing sends
  nothing and leaves one timer, due one delay after the last change; before that the
  timer cannot fire; when it fires, exactly one request is sent, for page 1 with the
  lower-cased final text of the box.
\<close>

theorem debounce_one_request:
  assumes "serverSide (config g)" and "truthy (ajax_url (config g))" and "never_vetoes g"
    and "\<not> isLoading g" and "timers g = []"
    and "burst \<noteq> []" and "\<forall>(gap, v) \<in> set (tl burst). gap < SEARCH_DEBOUNCE_DELAY"
  shows "\<exists>g1 t g2.
           run (typing burst) g = Some g1 \<and> sent g1 = sent g
           \<and> timers g1 = [(t, clock g1 + SEARCH_DEBOUNCE_DELAY, Debounced_search)]
           \<and> (\<forall>d < SEARCH_DEBOUNCE_DELAY. run [Tick d, Fire t] g1 = None)
           \<and> run [Tick SEARCH_DEBOUNCE_DELAY, Fire t] g1 = Some g2
           \<and> sent g2 = sent g @ [\<lparr>req_page = Num 1, req_pageSize = pageSize (config g),
                      req_search = toLowerCase (snd (last burst)), req_sortBy = sortColumn g,
                      req_sortDir = sortDirection g, req_draw = Suc (requestId g)\<rparr>]"
proof -
  from assms(6) obtain gap v rest where b: "burst = (gap, v) # rest"
    by (cases burst) auto
  from assms(7) have rest: "\<forall>(gap, v') \<in> set rest. gap < SEARCH_DEBOUNCE_DELAY"
    by (simp add: b)
  from type_first [OF assms(5), of gap v] obtain g0 where
    r0: "run [Tick gap, Input v] g = Some g0" and a0: "armed v g0"
    and e0: "engine_of g0 = engine_of g"
    by blast
  from type_rest [OF a0 rest] obtain g1 where
    r1: "run (typing rest) g0 = Some g1" and a1: "armed (last (v # map snd rest)) g1"
    and e1: "engine_of g1 = engine_of g0"
    by blast
  have tr: "typing burst = [Tick gap, Input v] @ typing rest"
    by (simp add: b)
  have run1: "run (typing burst) g = Some g1"
    unfolding tr run_append r0 using r1 by (simp only: option.case)
  have e: "engine_of g1 = engine_of g"
    using e0 e1 by simp
  note f = engine_of_eqD [OF e]
  have lst: "last (v # map snd rest) = snd (last burst)"
    unfolding b by (simp add: last_map)
  from a1 [unfolded lst] obtain t where
    tm: "timers g1 = [(t, clock g1 + SEARCH_DEBOUNCE_DELAY, Debounced_search)]"
    and iv: "inputValue g1 = snd (last burst)"
    unfolding armed_def by blast
  have c: "serverSide (config g1)" "truthy (ajax_url (config g1))" "never_vetoes g1"
    "\<not> isLoading g1"
    using assms(1-4) never_vetoes_cong [OF f(2)] by (simp_all add: f)
  from fire_armed [OF tm iv c] obtain g2 where
    blocked: "\<forall>d < SEARCH_DEBOUNCE_DELAY. run [Tick d, Fire t] g1 = None"
    and fired: "run [Tick SEARCH_DEBOUNCE_DELAY, Fire t] g1 = Some g2"
    and s2: "sent g2 = sent g1 @ [\<lparr>req_page = Num 1, req_pageSize = pageSize (config g1),
                      req_search = toLowerCase (snd (last burst)), req_sortBy = sortColumn g1,
                      req_sortDir = sortDirection g1, req_draw = Suc (requestId g1)\<rparr>]"
    by blast
  from run1 f(1) tm blocked fired s2 [unfolded f] show ?thesis
    by blast
qed

theorem debounce_one_request_witness:
  "serverSide (config demo_loaded) \<and> truthy (ajax_url (config demo_loaded))
   \<and> never_vetoes demo_loaded \<and> \<not> isLoading demo_loaded \<and> timers demo_loaded = []
   \<and> demo_burst \<noteq> []
   \<and> list_all (\<lambda>(gap, v). gap < SEARCH_DEBOUNCE_DELAY) (tl demo_burst)
   \<and> (\<exists>g1 t g2.
         run (typing demo_burst) demo_loaded = Some g1
         \<and> sent g1 = sent demo_loaded
         \<and> run [Tick 299, Fire t] g1 = None
         \<and> run [Tick SEARCH_DEBOUNCE_DELAY, Fire t] g1 = Some g2
         \<and> map req_search (sent g2) = ['''', ''ab''])"
proof -
  have h: "serverSide (config demo_loaded)" "truthy (ajax_url (config demo_loaded))"
    "never_vetoes demo_loaded" "\<not> isLoading demo_loaded" "timers demo_loaded = []"
    by (simp_all add: demo_loaded_eq demo_remote_eq new_fields_def demo_remote_options_def
        demo_options_def never_vetoes_def)
  have b: "demo_burst \<noteq> []"
    "\<forall>(gap, v) \<in> set (tl demo_burst). gap < SEARCH_DEBOUNCE_DELAY"
    by (simp_all add: SEARCH_DEBOUNCE_DELAY_def demo_burst_def)
  have s0: "map req_search (sent demo_loaded) = ['''']"
    by (simp add: demo_loaded_eq demo_remote_eq)
  have low: "toLowerCase (snd (last demo_burst)) = ''ab''"
    by (simp add: toLowerCase_def lower_char_def demo_burst_def)
  from debounce_one_request [OF h b] obtain g1 t g2 where
    r: "run (typing demo_burst) demo_loaded = Some g1"
      "sent g1 = sent demo_loaded"
      "\<forall>d < SEARCH_DEBOUNCE_DELAY. run [Tick d, Fire t] g1 = None"
      "run [Tick SEARCH_DEBOUNCE_DELAY, Fire t] g1 = Some g2"
    and s: "sent g2 = sent demo_loaded @
              [\<lparr>req_page = Num 1, req_pageSize = pageSize (config demo_loaded),
                req_search = toLowerCase (snd (last demo_burst)),
                req_sortBy = sortColumn demo_loaded, req_sortDir = sortDirection demo_loaded,
                req_draw = Suc (requestId demo_loaded)\<rparr>]"
    by (elim exE conjE)
  have "map req_search (sent g2) = ['''', ''ab'']"
    unfolding s by (simp add: s0 low)
  moreover from r(3) have "run [Tick 299, Fire t] g1 = None"
    by (simp add: SEARCH_DEBOUNCE_DELAY_def del: run.simps)
  ultimately have "\<exists>g1 t g2.
         run (typing demo_burst) demo_loaded = Some g1
         \<and> sent g1 = sent demo_loaded
         \<and> run [Tick 299, Fire t] g1 = None
         \<and> run [Tick SEARCH_DEBOUNCE_DELAY, Fire t] g1 = Some g2
         \<and> map req_search (sent g2) = ['''', ''ab'']"
    using r(1,2,4) by (intro exI conjI)
  moreover have "list_all (\<lambda>(gap, v). gap < SEARCH_DEBOUNCE_DELAY) (tl demo_burst)"
    by (simp add: SEARCH_DEBOUNCE_DELAY_def demo_burst_def)
  ultimately show ?thesis
    using h b(1) by (intro conjI)
qed

text \<open>
  C2 fails in two ways. For calls of \<^verbatim>\<open>search\<close>: on the loaded
  grid, whose only request so far carried the empty term, \<^verbatim>\<open>search('a')\<close> sends its
  request at once, and \<^verbatim>\<open>search('ab')\<close> 50 ms later sends none, so the one request of
  the two calls carries the first term. For typing while a request is in flight: on the
  grid that is loading its first page, the text \<^verbatim>\<open>a\<close> typed into the box sets the search
  term when the debounce timer fires 300 ms later, aborts the request in flight and sends
  nothing.
\<close>

theorem search_not_one_request:
  "map req_search (sent demo_loaded) = ['''']
   \<and> map_option (\<lambda>g. map req_search (sent g)) (run [Call_search (JStr ''a'')] demo_loaded)
       = Some ['''', ''a'']
   \<and> map_option (\<lambda>g. map req_search (sent g))
        (run [Call_search (JStr ''a''), Tick 50, Call_search (JStr ''ab'')] demo_loaded)
       = Some ['''', ''a'']
   \<and> map req_search (sent demo_remote) = ['''']
   \<and> map_option (\<lambda>g. (map req_search (sent g), searchTerm g, aborted g))
        (run [Input ''a'', Tick 300, Fire 0] demo_remote)
       = Some ([''''], ''a'', [1])"
proof (intro conjI)
  show "map req_search (sent demo_loaded) = ['''']"
    by (simp add: demo_loaded_eq demo_remote_eq)
  show "map_option (\<lambda>g. map req_search (sent g)) (run [Call_search (JStr ''a'')] demo_loaded)
          = Some ['''', ''a'']"
    by (simp add: demo_loaded_eq demo_remote_eq new_fields_def demo_remote_options_def
        demo_options_def search_def loadServerData_def Let_def emit_def request_params_def
        toLowerCase_def lower_char_def)
  show "map_option (\<lambda>g. map req_search (sent g))
          (run [Call_search (JStr ''a''), Tick 50, Call_search (JStr ''ab'')] demo_loaded)
          = Some ['''', ''a'']"
    by (simp add: demo_loaded_eq demo_remote_eq new_fields_def demo_remote_options_def
        demo_options_def search_def loadServerData_def Let_def emit_def request_params_def
        toLowerCase_def lower_char_def)
  show "map req_search (sent demo_remote) = ['''']"
    by (simp add: demo_remote_eq)
  show "map_option (\<lambda>g. (map req_search (sent g), searchTerm g, aborted g))
          (run [Input ''a'', Tick 300, Fire 0] demo_remote)
          = Some ([''''], ''a'', [1])"
    by (simp add: demo_remote_eq new_fields_def demo_remote_options_def demo_options_def
        debouncedSearch_def clearTimeout_def setTimeout_def SEARCH_DEBOUNCE_DELAY_def
        search_def loadServerData_def Let_def emit_def toLowerCase_def lower_char_def)
qed

end
